theory Spec2Isabelle
  imports Complex_Main "HOL-Library.Char_ord" "HOL-Library.List_Lexorder"
begin

section \<open>Python values and string primitives\<close>

text \<open>
  Python strings are modelled as \<open>string\<close>, one \<open>char\<close> per code point; the model
  therefore covers the code points 0 to 255. The exceptions that the modelled code can
  raise are values of \<open>py_error\<close>; a function that can raise returns \<open>py_error + 'a\<close>.
\<close>

datatype py_error = IndexError | ValueError | AttributeError

text \<open>\<open>xs[i]\<close> for a non-negative literal index: IndexError out of range.\<close>

definition py_index :: "'a list \<Rightarrow> nat \<Rightarrow> py_error + 'a" where
  "py_index xs i = (if i < length xs then Inr (xs ! i) else Inl IndexError)"

text \<open>
  \<open>str.isspace\<close> on one code point below 256: tab, line feed, vertical tab, form feed,
  carriage return, the four separators 0x1C to 0x1F, space, NEL and no-break space.
\<close>

definition py_isspace :: "char \<Rightarrow> bool" where
  "py_isspace c \<longleftrightarrow> c \<in> {CHR 0x09, CHR 0x0A, CHR 0x0B, CHR 0x0C, CHR 0x0D,
     CHR 0x1C, CHR 0x1D, CHR 0x1E, CHR 0x1F, CHR '' '', CHR 0x85, CHR 0xA0}"

text \<open>\<open>s.strip()\<close>: leading and trailing whitespace removed.\<close>

definition py_strip :: "string \<Rightarrow> string" where
  "py_strip s = rev (dropWhile py_isspace (rev (dropWhile py_isspace s)))"

text \<open>
  \<open>s.upper()\<close>: the letters a to z are mapped to A to Z. What Python does to
  code points outside ASCII is not modelled.
\<close>

definition char_upper :: "char \<Rightarrow> char" where
  "char_upper c =
     (case map_of (zip ''abcdefghijklmnopqrstuvwxyz'' ''ABCDEFGHIJKLMNOPQRSTUVWXYZ'') c of
        Some u \<Rightarrow> u | None \<Rightarrow> c)"

definition py_upper :: "string \<Rightarrow> string" where
  "py_upper s = map char_upper s"

text \<open>\<open>s.startswith(p)\<close>.\<close>

definition startswith :: "string \<Rightarrow> string \<Rightarrow> bool" where
  "startswith s p \<longleftrightarrow> take (length p) s = p"

text \<open>
  \<open>s.split(sep)\<close> for a one-character separator: the pieces between the occurrences of
  the separator, empty pieces included; never the empty list.
\<close>

primrec py_split :: "char \<Rightarrow> string \<Rightarrow> string list" where
  "py_split sep [] = [[]]"
| "py_split sep (c # cs) =
     (if c = sep then [] # py_split sep cs
      else (c # hd (py_split sep cs)) # tl (py_split sep cs))"

text \<open>\<open>s.split(sep, 1)\<close>: split at the first occurrence of the separator only.\<close>

definition py_split1 :: "char \<Rightarrow> string \<Rightarrow> string list" where
  "py_split1 sep s =
     (if sep \<in> set s
      then [takeWhile (\<lambda>c. c \<noteq> sep) s, tl (dropWhile (\<lambda>c. c \<noteq> sep) s)]
      else [s])"

text \<open>
  A dict display \<open>{k1: v1, k2: v2, ...}\<close>: the items are stored from left to right, a
  later item replacing the value of an equal earlier key.
\<close>

definition dict_of :: "('k \<times> 'v) list \<Rightarrow> ('k \<rightharpoonup> 'v)" where
  "dict_of kvs = fold (\<lambda>(k, v) m. m(k \<mapsto> v)) kvs Map.empty"

section \<open>Risk engine (\<open>risk_engine.py\<close>)\<close>

subsection \<open>Tables\<close>

text \<open>
  Seven advisory strings of \<open>RISK_TABLE\<close> contain the em dash U+2014, a code point
  beyond the range of \<open>char\<close>. It is written as the three bytes of its UTF-8 encoding.
  These strings are only stored and returned.
\<close>

definition em_dash :: string where
  "em_dash = [CHR 0xE2, CHR 0x80, CHR 0x94]"

definition PHENOTYPE_MAP_items :: "(string \<times> (string \<times> string) list) list" where
  "PHENOTYPE_MAP_items = [
     (''CYP2D6'', [
        (''*1/*1'', ''NM''), (''*1/*2'', ''RM''), (''*2/*2'', ''URM''), (''*1/*4'', ''IM''),
        (''*4/*4'', ''PM''), (''*4/*1'', ''IM''), (''*1/*3'', ''IM''), (''*3/*4'', ''PM''),
        (''*1/*5'', ''IM''), (''*5/*5'', ''PM''), (''*1/*6'', ''IM'')]),
     (''CYP2C19'', [
        (''*1/*1'', ''NM''), (''*1/*2'', ''IM''), (''*2/*2'', ''PM''), (''*1/*3'', ''IM''),
        (''*2/*3'', ''PM''), (''*3/*3'', ''PM''), (''*1/*17'', ''RM''), (''*17/*17'', ''URM'')]),
     (''CYP2C9'', [
        (''*1/*1'', ''NM''), (''*1/*2'', ''IM''), (''*1/*3'', ''IM''), (''*2/*2'', ''PM''),
        (''*2/*3'', ''IM''), (''*3/*3'', ''PM'')]),
     (''SLCO1B1'', [
        (''*1/*1'', ''NF''), (''*1/*5'', ''DF''), (''*5/*5'', ''PF''), (''*1/*15'', ''DF''),
        (''*15/*15'', ''PF'')]),
     (''TPMT'', [
        (''*1/*1'', ''NM''), (''*1/*3A'', ''IM''), (''*3A/*3A'', ''PM''), (''*1/*3C'', ''IM''),
        (''*3C/*3C'', ''PM''), (''*1/*2'', ''IM'')]),
     (''DPYD'', [
        (''*1/*1'', ''NM''), (''*1/*2A'', ''IM''), (''*2A/*2A'', ''PM''), (''*1/*13'', ''IM''),
        (''*2A/*1'', ''IM'')])]"

text \<open>The nested dict: one inner dict per gene.\<close>

definition PHENOTYPE_MAP :: "string \<rightharpoonup> (string \<rightharpoonup> string)" where
  "PHENOTYPE_MAP = dict_of (map (\<lambda>(g, kvs). (g, dict_of kvs)) PHENOTYPE_MAP_items)"

text \<open>
  The values of \<open>RISK_TABLE\<close>. The confidence score is a decimal literal that the code
  only stores and returns; it is modelled by the rational number the literal denotes.
\<close>

record risk_data =
  risk_label :: string
  severity :: string
  confidence_score :: rat
  action :: string
  dosing_adjustment :: string
  monitoring :: string

definition RISK_TABLE_items :: "((string \<times> string \<times> string) \<times> risk_data) list" where
  "RISK_TABLE_items = [
    ((''CYP2D6'', ''PM'', ''CODEINE''),
      \<lparr>risk_label = ''Toxic'', severity = ''critical'', confidence_score = 92 / 100,
       action = ''Avoid Codeine'',
       dosing_adjustment = ''N/A '' @ em_dash @ '' contraindicated'',
       monitoring = ''Switch to non-opioid analgesic (e.g., acetaminophen, NSAIDs)''\<rparr>),
    ((''CYP2D6'', ''NM'', ''CODEINE''),
      \<lparr>risk_label = ''Safe'', severity = ''low'', confidence_score = 92 / 100,
       action = ''Use standard dosing'',
       dosing_adjustment = ''None required'',
       monitoring = ''Standard monitoring''\<rparr>),
    ((''CYP2D6'', ''IM'', ''CODEINE''),
      \<lparr>risk_label = ''Adjust Dosage'', severity = ''moderate'', confidence_score = 85 / 100,
       action = ''Reduce dose or use alternative'',
       dosing_adjustment = ''Reduce dose by 25-50%'',
       monitoring = ''Monitor for reduced efficacy''\<rparr>),
    ((''CYP2D6'', ''RM'', ''CODEINE''),
      \<lparr>risk_label = ''Toxic'', severity = ''critical'', confidence_score = 90 / 100,
       action = ''Avoid Codeine '' @ em_dash @ '' ultra-rapid metabolism'',
       dosing_adjustment = ''N/A '' @ em_dash @ '' contraindicated due to rapid conversion to morphine'',
       monitoring = ''Switch to non-opioid analgesic''\<rparr>),
    ((''CYP2D6'', ''URM'', ''CODEINE''),
      \<lparr>risk_label = ''Toxic'', severity = ''critical'', confidence_score = 92 / 100,
       action = ''Avoid Codeine '' @ em_dash @ '' ultra-rapid metabolism'',
       dosing_adjustment = ''N/A '' @ em_dash @ '' contraindicated due to rapid conversion to morphine'',
       monitoring = ''Switch to non-opioid analgesic''\<rparr>),
    ((''CYP2C19'', ''PM'', ''CLOPIDOGREL''),
      \<lparr>risk_label = ''Ineffective'', severity = ''high'', confidence_score = 92 / 100,
       action = ''Use alternative antiplatelet'',
       dosing_adjustment = ''Switch to prasugrel or ticagrelor'',
       monitoring = ''Monitor platelet function''\<rparr>),
    ((''CYP2C19'', ''NM'', ''CLOPIDOGREL''),
      \<lparr>risk_label = ''Safe'', severity = ''low'', confidence_score = 92 / 100,
       action = ''Use standard dosing'',
       dosing_adjustment = ''None required'',
       monitoring = ''Standard monitoring''\<rparr>),
    ((''CYP2C19'', ''IM'', ''CLOPIDOGREL''),
      \<lparr>risk_label = ''Adjust Dosage'', severity = ''moderate'', confidence_score = 85 / 100,
       action = ''Consider alternative antiplatelet'',
       dosing_adjustment = ''Consider increased dose or alternative'',
       monitoring = ''Monitor platelet function closely''\<rparr>),
    ((''CYP2C19'', ''RM'', ''CLOPIDOGREL''),
      \<lparr>risk_label = ''Safe'', severity = ''low'', confidence_score = 88 / 100,
       action = ''Use standard dosing'',
       dosing_adjustment = ''None required'',
       monitoring = ''Standard monitoring''\<rparr>),
    ((''CYP2C19'', ''URM'', ''CLOPIDOGREL''),
      \<lparr>risk_label = ''Safe'', severity = ''low'', confidence_score = 85 / 100,
       action = ''Use standard dosing'',
       dosing_adjustment = ''None required '' @ em_dash @ '' may have enhanced response'',
       monitoring = ''Monitor for bleeding''\<rparr>),
    ((''CYP2C9'', ''IM'', ''WARFARIN''),
      \<lparr>risk_label = ''Adjust Dosage'', severity = ''high'', confidence_score = 90 / 100,
       action = ''Reduce warfarin dose'',
       dosing_adjustment = ''Reduce initial dose by 25-50%'',
       monitoring = ''Frequent INR monitoring; target INR 2.0-3.0''\<rparr>),
    ((''CYP2C9'', ''PM'', ''WARFARIN''),
      \<lparr>risk_label = ''Toxic'', severity = ''critical'', confidence_score = 92 / 100,
       action = ''Significantly reduce warfarin dose'',
       dosing_adjustment = ''Reduce initial dose by 50-80%'',
       monitoring = ''Very frequent INR monitoring; high bleeding risk''\<rparr>),
    ((''CYP2C9'', ''NM'', ''WARFARIN''),
      \<lparr>risk_label = ''Safe'', severity = ''low'', confidence_score = 92 / 100,
       action = ''Use standard dosing'',
       dosing_adjustment = ''None required'',
       monitoring = ''Standard INR monitoring''\<rparr>),
    ((''SLCO1B1'', ''PF'', ''SIMVASTATIN''),
      \<lparr>risk_label = ''Toxic'', severity = ''critical'', confidence_score = 92 / 100,
       action = ''Avoid simvastatin or use lowest dose'',
       dosing_adjustment = ''Use alternative statin (rosuvastatin or pravastatin)'',
       monitoring = ''Monitor for myopathy, check CK levels''\<rparr>),
    ((''SLCO1B1'', ''DF'', ''SIMVASTATIN''),
      \<lparr>risk_label = ''Adjust Dosage'', severity = ''high'', confidence_score = 88 / 100,
       action = ''Limit simvastatin dose'',
       dosing_adjustment = ''Do not exceed 20mg daily'',
       monitoring = ''Monitor for muscle pain and CK levels''\<rparr>),
    ((''SLCO1B1'', ''NF'', ''SIMVASTATIN''),
      \<lparr>risk_label = ''Safe'', severity = ''low'', confidence_score = 92 / 100,
       action = ''Use standard dosing'',
       dosing_adjustment = ''None required'',
       monitoring = ''Standard monitoring''\<rparr>),
    ((''TPMT'', ''PM'', ''AZATHIOPRINE''),
      \<lparr>risk_label = ''Toxic'', severity = ''critical'', confidence_score = 92 / 100,
       action = ''Avoid azathioprine or drastically reduce dose'',
       dosing_adjustment = ''Reduce dose to 10% of standard, or use alternative'',
       monitoring = ''Frequent CBC monitoring; high risk of myelosuppression''\<rparr>),
    ((''TPMT'', ''IM'', ''AZATHIOPRINE''),
      \<lparr>risk_label = ''Adjust Dosage'', severity = ''high'', confidence_score = 88 / 100,
       action = ''Reduce azathioprine dose'',
       dosing_adjustment = ''Start at 50% of standard dose'',
       monitoring = ''Regular CBC monitoring''\<rparr>),
    ((''TPMT'', ''NM'', ''AZATHIOPRINE''),
      \<lparr>risk_label = ''Safe'', severity = ''low'', confidence_score = 92 / 100,
       action = ''Use standard dosing'',
       dosing_adjustment = ''None required'',
       monitoring = ''Standard monitoring''\<rparr>),
    ((''DPYD'', ''PM'', ''FLUOROURACIL''),
      \<lparr>risk_label = ''Toxic'', severity = ''critical'', confidence_score = 92 / 100,
       action = ''Avoid fluorouracil'',
       dosing_adjustment = ''N/A '' @ em_dash @ '' contraindicated'',
       monitoring = ''Use alternative chemotherapy regimen''\<rparr>),
    ((''DPYD'', ''IM'', ''FLUOROURACIL''),
      \<lparr>risk_label = ''Adjust Dosage'', severity = ''high'', confidence_score = 88 / 100,
       action = ''Reduce fluorouracil dose'',
       dosing_adjustment = ''Reduce dose by 50%'',
       monitoring = ''Close monitoring for toxicity (mucositis, myelosuppression)''\<rparr>),
    ((''DPYD'', ''NM'', ''FLUOROURACIL''),
      \<lparr>risk_label = ''Safe'', severity = ''low'', confidence_score = 92 / 100,
       action = ''Use standard dosing'',
       dosing_adjustment = ''None required'',
       monitoring = ''Standard monitoring''\<rparr>)]"

definition RISK_TABLE :: "(string \<times> string \<times> string) \<rightharpoonup> risk_data" where
  "RISK_TABLE = dict_of RISK_TABLE_items"

subsection \<open>\<open>get_phenotype\<close> and \<open>assess_risk\<close>\<close>

text \<open>
  \<open>get_phenotype\<close>: the gene's sub-table (the empty dict for an unknown gene), the
  diplotype as given, then, when that misses and the diplotype contains a slash, the key
  \<open>parts[1]/parts[0]\<close> of the split at every slash. The final
  \<open>phenotype if phenotype else "Unknown"\<close> also turns an empty phenotype into Unknown.
\<close>

definition get_phenotype :: "string \<Rightarrow> string \<Rightarrow> py_error + string" where
  "get_phenotype gene diplotype =
     (let gene_map = (case PHENOTYPE_MAP gene of Some m \<Rightarrow> m | None \<Rightarrow> Map.empty);
          phenotype = gene_map diplotype;
          unknown_if_falsy = (\<lambda>ph. case ph of None \<Rightarrow> ''Unknown''
                                     | Some p \<Rightarrow> if p \<noteq> [] then p else ''Unknown'')
      in if phenotype = None \<and> CHR ''/'' \<in> set diplotype then
           (let parts = py_split CHR ''/'' diplotype in
            case py_index parts 1 of Inl e \<Rightarrow> Inl e
            | Inr p1 \<Rightarrow>
                (case py_index parts 0 of Inl e \<Rightarrow> Inl e
                 | Inr p0 \<Rightarrow> Inr (unknown_if_falsy (gene_map (p1 @ ''/'' @ p0)))))
         else Inr (unknown_if_falsy phenotype))"

text \<open>
  The dict returned by \<open>assess_risk\<close>, one field per key; its key \<open>gene\<close> is the
  field \<open>rv_gene\<close>, the name \<open>gene\<close> being the field of a variant below.
\<close>

record RiskVerdict = risk_data +
  phenotype :: string
  rv_gene :: string
  diplotype :: string
  drug :: string

text \<open>
  \<open>assess_risk\<close>. Every entry of \<open>RISK_TABLE\<close> is a non-empty dict, so the test
  \<open>if risk_data\<close> is the test for a hit.
\<close>

definition assess_risk :: "string \<Rightarrow> string \<Rightarrow> string \<Rightarrow> py_error + RiskVerdict" where
  "assess_risk gene dip drg =
     (let drug_upper = py_upper drg;
          gene_upper = py_upper gene
      in case get_phenotype gene_upper dip of Inl e \<Rightarrow> Inl e
         | Inr ph \<Rightarrow>
             (case RISK_TABLE (gene_upper, ph, drug_upper) of
                Some rd \<Rightarrow>
                  Inr \<lparr>risk_label = risk_label rd, severity = severity rd,
                       confidence_score = confidence_score rd, action = action rd,
                       dosing_adjustment = dosing_adjustment rd,
                       monitoring = monitoring rd,
                       phenotype = ph, rv_gene = gene_upper, diplotype = dip,
                       drug = drug_upper\<rparr>
              | None \<Rightarrow>
                  Inr \<lparr>risk_label = ''Unknown'', severity = ''unknown'',
                       confidence_score = 50 / 100,
                       action = ''Consult clinical pharmacogenomics specialist'',
                       dosing_adjustment = ''No guideline available for this combination'',
                       monitoring = ''Standard monitoring recommended'',
                       phenotype = ph, rv_gene = gene_upper, diplotype = dip,
                       drug = drug_upper\<rparr>))"

text \<open>
  The (gene, diplotype) table that \<open>get_phenotype\<close> consults, as one partial function,
  and the diplotype with its two alleles exchanged at the first slash.
\<close>

definition phenotype_table :: "string \<Rightarrow> string \<Rightarrow> string option" where
  "phenotype_table g d = (case PHENOTYPE_MAP g of None \<Rightarrow> None | Some m \<Rightarrow> m d)"

definition swap_alleles :: "string \<Rightarrow> string" where
  "swap_alleles d =
     tl (dropWhile (\<lambda>c. c \<noteq> CHR ''/'') d) @ ''/'' @ takeWhile (\<lambda>c. c \<noteq> CHR ''/'') d"

text \<open>
  A gene's sub-table is order-consistent when no phenotype is empty and a diplotype
  authored in both allele orders has the same phenotype in both.
\<close>

definition order_consistent :: "(string \<times> string) list \<Rightarrow> bool" where
  "order_consistent kvs \<longleftrightarrow>
     list_all (\<lambda>(d, p). p \<noteq> [] \<and>
        (case dict_of kvs (swap_alleles d) of None \<Rightarrow> True | Some q \<Rightarrow> q = p)) kvs"

section \<open>VCF parser (\<open>vcf_parser.py\<close>)\<close>

subsection \<open>Values and records\<close>

text \<open>
  A value of the INFO dict is a string (\<open>key=value\<close>) or \<open>True\<close> (a flag). The
  \<open>star\<close> and \<open>rsid\<close> entries of a variant are taken from that dict, so they have the
  same type. \<open>truthy\<close> is the truth value of \<open>if x\<close>, \<open>py_str\<close> the text an
  f-string inserts.
\<close>

datatype pyval = PStr string | PTrue

fun truthy :: "pyval \<Rightarrow> bool" where
  "truthy (PStr s) = (s \<noteq> [])"
| "truthy PTrue = True"

fun py_str :: "pyval \<Rightarrow> string" where
  "py_str (PStr s) = s"
| "py_str PTrue = ''True''"

record VariantCall =
  rsid :: pyval
  gene :: string
  star :: pyval
  chrom :: string
  pos :: int
  ref :: string
  alt :: string

text \<open>A value of \<open>RSID_LOOKUP\<close>: the dict with the keys \<open>gene\<close> and \<open>star\<close>.\<close>

record rsid_entry =
  entry_gene :: string
  entry_star :: string

text \<open>
  The local variables of the loop of \<open>parse_vcf_content\<close>, with the prefix \<open>st_\<close>,
  and the dict it returns; \<open>genes_found\<close> is a set in the loop and a sorted list in the
  result.
\<close>

record parse_state =
  st_variants :: "VariantCall list"
  st_genes_found :: "string set"
  st_parsing_errors :: "string list"
  st_total_lines :: nat
  st_vcf_version :: string

record ParseOutcome =
  variants :: "VariantCall list"
  genes_found :: "string list"
  total_variants :: nat
  total_lines_processed :: nat
  vcf_version :: string
  parsing_errors :: "string list"

subsection \<open>Tables\<close>

definition TARGET_GENES :: "string set" where
  "TARGET_GENES = {''CYP2D6'', ''CYP2C19'', ''CYP2C9'', ''SLCO1B1'', ''TPMT'', ''DPYD''}"

text \<open>
  The items of the dict display \<open>RSID_LOOKUP\<close> in source order; the key
  \<open>rs1800584\<close> is written twice.
\<close>

definition RSID_LOOKUP_items :: "(string \<times> rsid_entry) list" where
  "RSID_LOOKUP_items = [
    (''rs3892097'',  \<lparr>entry_gene = ''CYP2D6'', entry_star = ''*4''\<rparr>),
    (''rs1065852'',  \<lparr>entry_gene = ''CYP2D6'', entry_star = ''*4''\<rparr>),
    (''rs5030655'',  \<lparr>entry_gene = ''CYP2D6'', entry_star = ''*6''\<rparr>),
    (''rs16947'',    \<lparr>entry_gene = ''CYP2D6'', entry_star = ''*2''\<rparr>),
    (''rs1135840'',  \<lparr>entry_gene = ''CYP2D6'', entry_star = ''*2''\<rparr>),
    (''rs28371706'', \<lparr>entry_gene = ''CYP2D6'', entry_star = ''*17''\<rparr>),
    (''rs28371725'', \<lparr>entry_gene = ''CYP2D6'', entry_star = ''*41''\<rparr>),
    (''rs35742686'', \<lparr>entry_gene = ''CYP2D6'', entry_star = ''*3''\<rparr>),
    (''rs5030867'',  \<lparr>entry_gene = ''CYP2D6'', entry_star = ''*7''\<rparr>),
    (''rs5030865'',  \<lparr>entry_gene = ''CYP2D6'', entry_star = ''*8''\<rparr>),
    (''rs1080985'',  \<lparr>entry_gene = ''CYP2D6'', entry_star = ''*2''\<rparr>),
    (''rs28371703'', \<lparr>entry_gene = ''CYP2D6'', entry_star = ''*15''\<rparr>),
    (''rs769258'',   \<lparr>entry_gene = ''CYP2D6'', entry_star = ''*5''\<rparr>),
    (''rs4244285'',  \<lparr>entry_gene = ''CYP2C19'', entry_star = ''*2''\<rparr>),
    (''rs4986893'',  \<lparr>entry_gene = ''CYP2C19'', entry_star = ''*3''\<rparr>),
    (''rs12248560'', \<lparr>entry_gene = ''CYP2C19'', entry_star = ''*17''\<rparr>),
    (''rs28399504'', \<lparr>entry_gene = ''CYP2C19'', entry_star = ''*4''\<rparr>),
    (''rs56337013'', \<lparr>entry_gene = ''CYP2C19'', entry_star = ''*5''\<rparr>),
    (''rs72552267'', \<lparr>entry_gene = ''CYP2C19'', entry_star = ''*6''\<rparr>),
    (''rs72558186'', \<lparr>entry_gene = ''CYP2C19'', entry_star = ''*7''\<rparr>),
    (''rs41291556'', \<lparr>entry_gene = ''CYP2C19'', entry_star = ''*8''\<rparr>),
    (''rs1799853'',  \<lparr>entry_gene = ''CYP2C9'', entry_star = ''*2''\<rparr>),
    (''rs1057910'',  \<lparr>entry_gene = ''CYP2C9'', entry_star = ''*3''\<rparr>),
    (''rs28371686'', \<lparr>entry_gene = ''CYP2C9'', entry_star = ''*5''\<rparr>),
    (''rs9332131'',  \<lparr>entry_gene = ''CYP2C9'', entry_star = ''*6''\<rparr>),
    (''rs28371685'', \<lparr>entry_gene = ''CYP2C9'', entry_star = ''*11''\<rparr>),
    (''rs4149056'',  \<lparr>entry_gene = ''SLCO1B1'', entry_star = ''*5''\<rparr>),
    (''rs2306283'',  \<lparr>entry_gene = ''SLCO1B1'', entry_star = ''*1b''\<rparr>),
    (''rs4149015'',  \<lparr>entry_gene = ''SLCO1B1'', entry_star = ''*15''\<rparr>),
    (''rs11045819'', \<lparr>entry_gene = ''SLCO1B1'', entry_star = ''*1b''\<rparr>),
    (''rs1800462'',  \<lparr>entry_gene = ''TPMT'', entry_star = ''*2''\<rparr>),
    (''rs1800460'',  \<lparr>entry_gene = ''TPMT'', entry_star = ''*3A''\<rparr>),
    (''rs1142345'',  \<lparr>entry_gene = ''TPMT'', entry_star = ''*3A''\<rparr>),
    (''rs1800584'',  \<lparr>entry_gene = ''TPMT'', entry_star = ''*3B''\<rparr>),
    (''rs1800584'',  \<lparr>entry_gene = ''TPMT'', entry_star = ''*3C''\<rparr>),
    (''rs3918290'',  \<lparr>entry_gene = ''DPYD'', entry_star = ''*2A''\<rparr>),
    (''rs55886062'', \<lparr>entry_gene = ''DPYD'', entry_star = ''*13''\<rparr>),
    (''rs67376798'', \<lparr>entry_gene = ''DPYD'', entry_star = ''*HapB3''\<rparr>),
    (''rs75017182'', \<lparr>entry_gene = ''DPYD'', entry_star = ''*HapB3''\<rparr>),
    (''rs56038477'', \<lparr>entry_gene = ''DPYD'', entry_star = ''*HapB3''\<rparr>)]"

definition RSID_LOOKUP :: "string \<rightharpoonup> rsid_entry" where
  "RSID_LOOKUP = dict_of RSID_LOOKUP_items"

text \<open>
  \<open>POSITION_GENE_MAP\<close>: its keys are pairwise distinct, so \<open>.items()\<close> yields the
  items of the display in source order. Each item is ((chromosome, start, end), gene).
\<close>

definition POSITION_GENE_MAP :: "((string \<times> int \<times> int) \<times> string) list" where
  "POSITION_GENE_MAP = [
    ((''chr22'', 42522000, 42528000), ''CYP2D6''),
    ((''22'', 42522000, 42528000), ''CYP2D6''),
    ((''chr22'', 42126000, 42132000), ''CYP2D6''),
    ((''22'', 42126000, 42132000), ''CYP2D6''),
    ((''chr10'', 96520000, 96614000), ''CYP2C19''),
    ((''10'', 96520000, 96614000), ''CYP2C19''),
    ((''chr10'', 94762000, 94856000), ''CYP2C19''),
    ((''10'', 94762000, 94856000), ''CYP2C19''),
    ((''chr10'', 96698000, 96751000), ''CYP2C9''),
    ((''10'', 96698000, 96751000), ''CYP2C9''),
    ((''chr10'', 94938000, 94991000), ''CYP2C9''),
    ((''10'', 94938000, 94991000), ''CYP2C9''),
    ((''chr12'', 21283000, 21394000), ''SLCO1B1''),
    ((''12'', 21283000, 21394000), ''SLCO1B1''),
    ((''chr6'', 18128000, 18156000), ''TPMT''),
    ((''6'', 18128000, 18156000), ''TPMT''),
    ((''chr1'', 97543000, 97922000), ''DPYD''),
    ((''1'', 97543000, 97922000), ''DPYD'')]"

subsection \<open>Numbers and text\<close>

text \<open>\<open>str(n)\<close> for an integer: its decimal digits, with a minus sign when negative.\<close>

definition digit_char :: "nat \<Rightarrow> char" where
  "digit_char d = ''0123456789'' ! d"

fun str_nat :: "nat \<Rightarrow> string" where
  "str_nat n = (if n < 10 then [digit_char n] else str_nat (n div 10) @ [digit_char (n mod 10)])"

definition str_int :: "int \<Rightarrow> string" where
  "str_int i = (if i < 0 then CHR ''-'' # str_nat (nat (- i)) else str_nat (nat i))"

text \<open>
  \<open>int(s)\<close> in base 10, with \<open>None\<close> for ValueError (the only exception it raises on
  a string, and the one the caller catches): whitespace around the number is ignored (for
  \<open>int\<close> that is tab to carriage return, space, NEL and no-break space), then an optional
  sign, then decimal digits, where single underscores may stand between digits. The
  limit that recent interpreters put on the number of digits is not modelled.
\<close>

definition int_isspace :: "char \<Rightarrow> bool" where
  "int_isspace c \<longleftrightarrow> c \<in> {CHR 0x09, CHR 0x0A, CHR 0x0B, CHR 0x0C, CHR 0x0D, CHR '' '',
     CHR 0x85, CHR 0xA0}"

definition is_digit :: "char \<Rightarrow> bool" where
  "is_digit c \<longleftrightarrow> c \<in> set ''0123456789''"

definition digit_val :: "char \<Rightarrow> int" where
  "digit_val c = int (of_char c) - 48"

fun valid_digits :: "string \<Rightarrow> bool" where
  "valid_digits [] = False"
| "valid_digits [c] = is_digit c"
| "valid_digits (c # d # cs) =
     (is_digit c \<and> (if d = CHR ''_'' then valid_digits cs else valid_digits (d # cs)))"

definition digits_value :: "string \<Rightarrow> int" where
  "digits_value ds = foldl (\<lambda>acc c. acc * 10 + digit_val c) 0 (filter (\<lambda>c. c \<noteq> CHR ''_'') ds)"

definition py_int :: "string \<Rightarrow> int option" where
  "py_int s =
     (let t = rev (dropWhile int_isspace (rev (dropWhile int_isspace s)));
          neg = (t \<noteq> [] \<and> hd t = CHR ''-'');
          ds = (if t \<noteq> [] \<and> (hd t = CHR ''-'' \<or> hd t = CHR ''+'') then tl t else t)
      in if valid_digits ds
         then Some (if neg then - digits_value ds else digits_value ds)
         else None)"

text \<open>
  \<open>re.split(r"\s+", s)\<close>: the pieces between the maximal runs of whitespace; a run at
  either end of the string leaves an empty piece there.
\<close>

function re_split_ws :: "string \<Rightarrow> string list" where
  "re_split_ws [] = [[]]"
| "re_split_ws (c # cs) =
     (if py_isspace c then [] # re_split_ws (dropWhile py_isspace cs)
      else (c # hd (re_split_ws cs)) # tl (re_split_ws cs))"
  by pat_completeness auto
termination
  by (relation "measure length") (auto simp: length_dropWhile_le less_Suc_eq_le)

declare str_nat.simps [simp del]

subsection \<open>INFO field and lookups\<close>

text \<open>
  \<open>parse_info_field\<close>: one step per item of \<open>info.split(";")\<close>. The unpacking
  \<open>key, value = item.split("=", 1)\<close> raises ValueError unless the split has two parts.
\<close>

definition info_item :: "string \<Rightarrow> (string \<rightharpoonup> pyval) \<Rightarrow> py_error + (string \<rightharpoonup> pyval)" where
  "info_item item result =
     (if CHR ''='' \<in> set item then
        (case py_split1 CHR ''='' item of
           [key, val] \<Rightarrow> Inr (result(py_strip key \<mapsto> PStr (py_strip val)))
         | _ \<Rightarrow> Inl ValueError)
      else Inr (result(py_strip item \<mapsto> PTrue)))"

fun info_items :: "string list \<Rightarrow> (string \<rightharpoonup> pyval) \<Rightarrow> py_error + (string \<rightharpoonup> pyval)" where
  "info_items [] result = Inr result"
| "info_items (item # items) result =
     (case info_item item result of Inl e \<Rightarrow> Inl e
      | Inr result' \<Rightarrow> info_items items result')"

definition parse_info_field :: "string \<Rightarrow> py_error + (string \<rightharpoonup> pyval)" where
  "parse_info_field info =
     (if info = ''.'' \<or> info = [] then Inr Map.empty
      else info_items (py_split CHR '';'' info) Map.empty)"

definition lookup_by_rsid :: "string \<Rightarrow> rsid_entry option" where
  "lookup_by_rsid r = RSID_LOOKUP r"

text \<open>\<open>lookup_by_position\<close>: the first item whose chromosome and range match.\<close>

fun position_scan :: "((string \<times> int \<times> int) \<times> string) list \<Rightarrow> string \<Rightarrow> int \<Rightarrow> string option" where
  "position_scan [] chr p = None"
| "position_scan (((c, start, stop), g) # items) chr p =
     (if chr = c \<and> start \<le> p \<and> p \<le> stop then Some g else position_scan items chr p)"

definition lookup_by_position :: "string \<Rightarrow> int \<Rightarrow> string option" where
  "lookup_by_position chr p = position_scan POSITION_GENE_MAP chr p"

subsection \<open>\<open>parse_vcf_content\<close>\<close>

text \<open>
  The columns of a stripped line: the split at tabs, or, when that has fewer than 8
  parts, the split at runs of whitespace.
\<close>

definition split_columns :: "string \<Rightarrow> string list" where
  "split_columns line =
     (let parts = py_split CHR 0x09 line
      in if length parts < 8 then re_split_ws line else parts)"

text \<open>
  The three strategies, each a step on the triple (gene, star, variant_rsid), which
  starts as \<open>(None, "", rsid)\<close>. In strategy 1, \<open>info_dict["GENE"].upper()\<close> raises
  AttributeError when the value is \<open>True\<close>, which has no method \<open>upper\<close>.
\<close>

type_synonym resolution = "string option \<times> pyval \<times> pyval"

definition strategy1 :: "(string \<rightharpoonup> pyval) \<Rightarrow> string \<Rightarrow> resolution \<Rightarrow> py_error + resolution" where
  "strategy1 info_dict rs res =
     (case info_dict ''GENE'' of
        None \<Rightarrow> Inr res
      | Some PTrue \<Rightarrow> Inl AttributeError
      | Some (PStr g) \<Rightarrow>
          Inr (Some (py_upper g),
               (case info_dict ''STAR'' of Some v \<Rightarrow> v | None \<Rightarrow> PStr []),
               (case info_dict ''RS'' of Some v \<Rightarrow> v | None \<Rightarrow> PStr rs)))"

definition strategy2 :: "string \<Rightarrow> resolution \<Rightarrow> resolution" where
  "strategy2 rs res =
     (if fst res = None \<and> rs \<noteq> ''.'' \<and> startswith rs ''rs'' then
        (case lookup_by_rsid rs of
           Some lookup \<Rightarrow> (Some (entry_gene lookup), PStr (entry_star lookup), PStr rs)
         | None \<Rightarrow> res)
      else res)"

definition strategy3 :: "string \<Rightarrow> int \<Rightarrow> string \<Rightarrow> resolution \<Rightarrow> resolution" where
  "strategy3 chr p rs res =
     (if fst res = None then
        (case lookup_by_position chr p of
           Some pos_gene \<Rightarrow>
             if pos_gene \<noteq> [] then
               (Some pos_gene, fst (snd res),
                PStr (if rs \<noteq> ''.'' then rs else ''pos_'' @ chr @ ''_'' @ str_int p))
             else res
         | None \<Rightarrow> res)
      else res)"

definition resolve_gene :: "(string \<rightharpoonup> pyval) \<Rightarrow> string \<Rightarrow> int \<Rightarrow> string \<Rightarrow> py_error + resolution" where
  "resolve_gene info_dict chr p rs =
     (case strategy1 info_dict rs (None, PStr [], PStr rs) of
        Inl e \<Rightarrow> Inl e
      | Inr res \<Rightarrow> Inr (strategy3 chr p rs (strategy2 rs res)))"

text \<open>
  The end of the loop body: a record without a gene, or with a gene outside
  \<open>TARGET_GENES\<close>, is skipped; otherwise the gene and the variant are stored.
\<close>

definition materialize :: "resolution \<Rightarrow> string \<Rightarrow> int \<Rightarrow> string \<Rightarrow> string \<Rightarrow> parse_state \<Rightarrow> parse_state" where
  "materialize res chr p rf al st =
     (case fst res of
        None \<Rightarrow> st
      | Some g \<Rightarrow>
          if g \<notin> TARGET_GENES then st
          else st\<lparr>st_genes_found := insert g (st_genes_found st),
                  st_variants := st_variants st @
                    [\<lparr>rsid = snd (snd res), gene = g, star = fst (snd res), chrom = chr,
                      pos = p, ref = rf, alt = al\<rparr>]\<rparr>)"

definition insufficient_columns :: "nat \<Rightarrow> nat \<Rightarrow> string" where
  "insufficient_columns line_num n =
     ''Line '' @ str_nat line_num @ '': insufficient columns ('' @ str_nat n
       @ '' found, minimum 5 expected)''"

definition invalid_position :: "nat \<Rightarrow> string \<Rightarrow> string" where
  "invalid_position line_num pos_str =
     ''Line '' @ str_nat line_num @ '': invalid position '' @ [CHR 0x27] @ pos_str @ [CHR 0x27]"

text \<open>
  The loop body from the column count on. The indices 0 to 4 are in range after the
  test for fewer than 5 parts; the code guards the later ones itself.
\<close>

definition process_record :: "nat \<Rightarrow> string list \<Rightarrow> parse_state \<Rightarrow> py_error + parse_state" where
  "process_record line_num parts st =
     (if length parts < 5 then
        Inr (st\<lparr>st_parsing_errors :=
                 st_parsing_errors st @ [insufficient_columns line_num (length parts)]\<rparr>)
      else
        (let chr = parts ! 0;
             pos_str = parts ! 1;
             rs = (if length parts > 2 then parts ! 2 else ''.'');
             rf = (if length parts > 3 then parts ! 3 else ''.'');
             al = (if length parts > 4 then parts ! 4 else ''.'');
             info = (if length parts > 7 then parts ! 7 else [])
         in case py_int pos_str of
              None \<Rightarrow>
                Inr (st\<lparr>st_parsing_errors :=
                         st_parsing_errors st @ [invalid_position line_num pos_str]\<rparr>)
            | Some pos_int \<Rightarrow>
                (case parse_info_field info of
                   Inl e \<Rightarrow> Inl e
                 | Inr info_dict \<Rightarrow>
                     (case resolve_gene info_dict chr pos_int rs of
                        Inl e \<Rightarrow> Inl e
                      | Inr res \<Rightarrow> Inr (materialize res chr pos_int rf al st)))))"

text \<open>
  One iteration of the loop over the enumerated lines. The tests for the version line
  and for a header line look at the line as it is; only then is the line stripped.
\<close>

definition process_line :: "nat \<Rightarrow> string \<Rightarrow> parse_state \<Rightarrow> py_error + parse_state" where
  "process_line line_num line0 st =
     (if startswith line0 ''##fileformat='' then
        (case py_index (py_split1 CHR ''='' line0) 1 of
           Inl e \<Rightarrow> Inl e
         | Inr v \<Rightarrow> Inr (st\<lparr>st_vcf_version := py_strip v\<rparr>))
      else if startswith line0 ''#'' then Inr st
      else
        (let line = py_strip line0
         in if line = [] then Inr st
            else process_record line_num (split_columns line)
                   (st\<lparr>st_total_lines := st_total_lines st + 1\<rparr>)))"

fun parse_lines :: "nat \<Rightarrow> string list \<Rightarrow> parse_state \<Rightarrow> py_error + parse_state" where
  "parse_lines n [] st = Inr st"
| "parse_lines n (l # ls) st =
     (case process_line n l st of Inl e \<Rightarrow> Inl e
      | Inr st' \<Rightarrow> parse_lines (Suc n) ls st')"

definition initial_state :: parse_state where
  "initial_state = \<lparr>st_variants = [], st_genes_found = {}, st_parsing_errors = [],
     st_total_lines = 0, st_vcf_version = ''Unknown''\<rparr>"

definition outcome_of :: "parse_state \<Rightarrow> ParseOutcome" where
  "outcome_of st = \<lparr>variants = st_variants st,
     genes_found = sorted_list_of_set (st_genes_found st),
     total_variants = length (st_variants st),
     total_lines_processed = st_total_lines st,
     vcf_version = st_vcf_version st,
     parsing_errors = st_parsing_errors st\<rparr>"

definition document_lines :: "string \<Rightarrow> string list" where
  "document_lines content = py_split CHR 0x0A (py_strip content)"

definition parse_vcf_content :: "string \<Rightarrow> py_error + ParseOutcome" where
  "parse_vcf_content content =
     (case parse_lines 1 (document_lines content) initial_state of
        Inl e \<Rightarrow> Inl e
      | Inr st \<Rightarrow> Inr (outcome_of st))"

subsection \<open>\<open>infer_diplotype\<close>\<close>

text \<open>
  The loop that collects \<open>stars\<close>, then the three cases. Every variant of the model has
  a \<open>star\<close> entry, so the default of \<open>v.get("star", "")\<close> is never used.
\<close>

fun collect_stars :: "VariantCall list \<Rightarrow> pyval list \<Rightarrow> pyval list" where
  "collect_stars [] stars = stars"
| "collect_stars (v # vs) stars =
     (if truthy (star v) \<and> star v \<notin> set stars
      then collect_stars vs (stars @ [star v])
      else collect_stars vs stars)"

definition infer_diplotype :: "VariantCall list \<Rightarrow> string option" where
  "infer_diplotype gene_variants =
     (let stars = collect_stars gene_variants []
      in if length stars = 0 then None
         else if length stars = 1 then
           (if length gene_variants \<ge> 2
            then Some (py_str (stars ! 0) @ ''/'' @ py_str (stars ! 0))
            else Some (py_str (stars ! 0) @ ''/*1''))
         else Some (py_str (stars ! 0) @ ''/'' @ py_str (stars ! 1)))"

section \<open>Notions of the specification\<close>

text \<open>
  The distinct elements of a list in first-occurrence order, and the distinct non-empty
  star-allele labels of a list of variants.
\<close>

primrec first_occurrences :: "'a list \<Rightarrow> 'a list" where
  "first_occurrences [] = []"
| "first_occurrences (x # xs) = x # filter (\<lambda>y. y \<noteq> x) (first_occurrences xs)"

definition distinct_labels :: "VariantCall list \<Rightarrow> pyval list" where
  "distinct_labels vs = first_occurrences (filter truthy (map star vs))"

text \<open>
  A line counts as data when it is not blank and begins neither with the comment marker
  nor with the format-version marker.
\<close>

definition blank :: "string \<Rightarrow> bool" where
  "blank l \<longleftrightarrow> list_all py_isspace l"

definition counted_line :: "string \<Rightarrow> bool" where
  "counted_line l \<longleftrightarrow> \<not> blank l \<and> \<not> startswith l ''#'' \<and> \<not> startswith l ''##fileformat=''"


section \<open>Properties of the risk engine\<close>

subsection \<open>Dicts and splits\<close>

lemma dict_of_fold: "fold (\<lambda>(k, v) m. m(k \<mapsto> v)) kvs m0 = m0 ++ map_of (rev kvs)"
  by (induction kvs arbitrary: m0) (auto simp: map_add_def fun_eq_iff split: option.splits)

lemma dict_of_map_of: "dict_of kvs = map_of (rev kvs)"
  by (simp add: dict_of_def dict_of_fold)

lemma dict_of_SomeD: "dict_of kvs k = Some v \<Longrightarrow> (k, v) \<in> set kvs"
  by (auto simp: dict_of_map_of dest: map_of_SomeD)

lemma py_split_not_Nil: "py_split sep s \<noteq> []"
  by (induction s) auto

lemma py_split_no_sep: "sep \<notin> set s \<Longrightarrow> py_split sep s = [s]"
  by (induction s) auto

lemma py_split_append: "sep \<notin> set a \<Longrightarrow> py_split sep (a @ sep # b) = a # py_split sep b"
  by (induction a) auto

lemma py_split_length: "sep \<in> set s \<Longrightarrow> 2 \<le> length (py_split sep s)"
proof -
  assume "sep \<in> set s"
  then obtain a b where "s = a @ sep # b" "sep \<notin> set a"
    by (meson split_list_first)
  then show ?thesis
    using py_split_not_Nil [of sep b] by (cases "py_split sep b") (simp_all add: py_split_append)
qed

subsection \<open>\<open>get_phenotype\<close>\<close>

text \<open>The index \<open>parts[1]\<close> is only evaluated when the diplotype contains a slash.\<close>

lemma get_phenotype_total: "\<exists>p. get_phenotype g d = Inr p"
  using py_split_length [of "CHR ''/''" d]
  by (auto simp: get_phenotype_def py_index_def Let_def)

lemma swap_alleles_pair:
  "CHR ''/'' \<notin> set a \<Longrightarrow> swap_alleles (a @ CHR ''/'' # b) = b @ CHR ''/'' # a"
proof -
  assume a: "CHR ''/'' \<notin> set a"
  then have "dropWhile (\<lambda>c. c \<noteq> CHR ''/'') a = []" "takeWhile (\<lambda>c. c \<noteq> CHR ''/'') a = a"
    by (auto simp: takeWhile_eq_all_conv)
  then show ?thesis
    by (simp add: swap_alleles_def dropWhile_append3 takeWhile_tail)
qed

lemma PHENOTYPE_MAP_consistent:
  "list_all (\<lambda>(g, kvs). order_consistent kvs) PHENOTYPE_MAP_items"
  by (simp add: PHENOTYPE_MAP_items_def order_consistent_def dict_of_def swap_alleles_def)

lemma PHENOTYPE_MAP_SomeD:
  "PHENOTYPE_MAP g = Some m \<Longrightarrow> \<exists>kvs. (g, kvs) \<in> set PHENOTYPE_MAP_items \<and> m = dict_of kvs"
  unfolding PHENOTYPE_MAP_def by (drule dict_of_SomeD) auto

lemma phenotype_table_props:
  assumes "phenotype_table g d = Some p"
  shows "p \<noteq> []" and "phenotype_table g (swap_alleles d) = Some q \<Longrightarrow> q = p"
proof -
  from assms obtain m where m: "PHENOTYPE_MAP g = Some m" "m d = Some p"
    by (auto simp: phenotype_table_def split: option.splits)
  then obtain kvs where kvs: "(g, kvs) \<in> set PHENOTYPE_MAP_items" "m = dict_of kvs"
    using PHENOTYPE_MAP_SomeD by blast
  then have oc: "order_consistent kvs"
    using PHENOTYPE_MAP_consistent by (auto simp: list_all_iff)
  have "(d, p) \<in> set kvs" using m kvs dict_of_SomeD by fast
  with oc have *: "p \<noteq> [] \<and>
      (case dict_of kvs (swap_alleles d) of None \<Rightarrow> True | Some q \<Rightarrow> q = p)"
    by (auto simp: order_consistent_def list_all_iff)
  then show "p \<noteq> []" by simp
  show "phenotype_table g (swap_alleles d) = Some q \<Longrightarrow> q = p"
    using * m kvs by (simp add: phenotype_table_def)
qed

lemma get_phenotype_pair:
  assumes "CHR ''/'' \<notin> set a" "CHR ''/'' \<notin> set b"
  shows "get_phenotype g (a @ CHR ''/'' # b) =
     Inr (case phenotype_table g (a @ CHR ''/'' # b) of Some p \<Rightarrow> p
          | None \<Rightarrow> (case phenotype_table g (b @ CHR ''/'' # a) of
                       Some p \<Rightarrow> p | None \<Rightarrow> ''Unknown''))"
proof -
  have sp: "py_split CHR ''/'' (a @ CHR ''/'' # b) = [a, b]"
    using assms by (simp add: py_split_append py_split_no_sep)
  show ?thesis
    using phenotype_table_props(1)[of g "a @ CHR ''/'' # b"]
      phenotype_table_props(1)[of g "b @ CHR ''/'' # a"]
    by (auto simp: get_phenotype_def Let_def sp py_index_def phenotype_table_def
        split: option.splits)
qed

text \<open>
  Claim C3, as the code has it: for every gene and every two allele labels that do not
  themselves contain the separator, \<open>get_phenotype\<close> gives the same phenotype for
  \<open>A/B\<close> and \<open>B/A\<close>: it is the table's entry for \<open>A/B\<close> if there is one, else the
  entry for \<open>B/A\<close> if there is one, else Unknown.
\<close>

theorem get_phenotype_symmetric:
  assumes "CHR ''/'' \<notin> set a" "CHR ''/'' \<notin> set b"
  shows "get_phenotype g (a @ ''/'' @ b) = get_phenotype g (b @ ''/'' @ a)
    \<and> get_phenotype g (a @ ''/'' @ b) =
        Inr (case phenotype_table g (a @ ''/'' @ b) of Some p \<Rightarrow> p
             | None \<Rightarrow> (case phenotype_table g (b @ ''/'' @ a) of
                          Some p \<Rightarrow> p | None \<Rightarrow> ''Unknown''))"
proof -
  let ?ab = "a @ CHR ''/'' # b" and ?ba = "b @ CHR ''/'' # a"
  have sw: "swap_alleles ?ab = ?ba" "swap_alleles ?ba = ?ab"
    using assms by (simp_all add: swap_alleles_pair)
  have agree: "phenotype_table g ?ab = Some p \<Longrightarrow> phenotype_table g ?ba = Some q \<Longrightarrow> q = p"
    for p q
    using phenotype_table_props(2)[of g ?ab p q] sw by simp
  have "get_phenotype g ?ab = get_phenotype g ?ba"
    unfolding get_phenotype_pair[OF assms] get_phenotype_pair[OF assms(2,1)]
    using agree by (auto split: option.splits)
  then show ?thesis
    unfolding append_Cons append_Nil
    by (rule conjI [OF _ get_phenotype_pair[OF assms]])
qed

theorem get_phenotype_symmetric_witness:
  "CHR ''/'' \<notin> set ''*4'' \<and> CHR ''/'' \<notin> set ''*1''
   \<and> get_phenotype ''CYP2D6'' ''*4/*1'' = get_phenotype ''CYP2D6'' ''*1/*4''
   \<and> get_phenotype ''CYP2D6'' ''*1/*4'' = Inr ''IM''"
proof -
  have h: "CHR ''/'' \<notin> set ''*4''" "CHR ''/'' \<notin> set ''*1''" by simp_all
  have "get_phenotype ''CYP2D6'' ''*1/*4'' = Inr ''IM''"
    by (simp add: get_phenotype_def PHENOTYPE_MAP_def PHENOTYPE_MAP_items_def dict_of_def)
  then show ?thesis
    using get_phenotype_symmetric [OF h, of "''CYP2D6''"] by simp
qed

text \<open>
  Claim C3 as stated, for every pair of strings, fails: with the allele labels
  \<open>*1/*4\<close> and \<open>x\<close> the diplotype \<open>*1/*4/x\<close> is read as \<open>*4/*1\<close> after the swap
  (phenotype IM), while \<open>x/*1/*4\<close> is read as \<open>*1/x\<close> (Unknown).
\<close>

theorem get_phenotype_symmetric_counterexample:
  "get_phenotype ''CYP2D6'' (''*1/*4'' @ ''/'' @ ''x'') = Inr ''IM''
   \<and> get_phenotype ''CYP2D6'' (''x'' @ ''/'' @ ''*1/*4'') = Inr ''Unknown''
   \<and> get_phenotype ''CYP2D6'' (''*1/*4'' @ ''/'' @ ''x'')
       \<noteq> get_phenotype ''CYP2D6'' (''x'' @ ''/'' @ ''*1/*4'')"
  by (simp add: get_phenotype_def PHENOTYPE_MAP_def PHENOTYPE_MAP_items_def dict_of_def
      py_index_def)

subsection \<open>\<open>assess_risk\<close>\<close>

lemma RISK_TABLE_Unknown: "RISK_TABLE (g, ''Unknown'', d) = None"
  by (simp add: RISK_TABLE_def dict_of_def RISK_TABLE_items_def)

text \<open>
  Claim C1, as the code has it: for every gene, diplotype and drug, \<open>assess_risk\<close>
  returns a verdict (it never raises), annotated with the resolved phenotype, the
  upper-cased gene and drug and the diplotype as given; when the risk table has no rule
  for the combination, and in particular when the phenotype is Unknown, the verdict is
  the default: label Unknown, severity unknown, confidence 0.50 and the three advisory
  texts exactly as the code spells them.
\<close>

theorem assess_risk_total_default:
  "\<exists>v. assess_risk g dip drg = Inr v
      \<and> get_phenotype (py_upper g) dip = Inr (phenotype v)
      \<and> rv_gene v = py_upper g \<and> diplotype v = dip \<and> drug v = py_upper drg
      \<and> (RISK_TABLE (py_upper g, phenotype v, py_upper drg) = None
           \<or> phenotype v = ''Unknown''
         \<longrightarrow> risk_label v = ''Unknown'' \<and> severity v = ''unknown''
             \<and> confidence_score v = 50 / 100
             \<and> action v = ''Consult clinical pharmacogenomics specialist''
             \<and> dosing_adjustment v = ''No guideline available for this combination''
             \<and> monitoring v = ''Standard monitoring recommended'')"
proof -
  obtain p where p: "get_phenotype (py_upper g) dip = Inr p"
    using get_phenotype_total by blast
  show ?thesis
  proof (cases "RISK_TABLE (py_upper g, p, py_upper drg)")
    case None
    then show ?thesis by (simp add: assess_risk_def p)
  next
    case (Some rd)
    then have "p \<noteq> ''Unknown''" using RISK_TABLE_Unknown by auto
    with Some show ?thesis by (simp add: assess_risk_def p)
  qed
qed

theorem assess_risk_total_default_witness:
  "\<exists>v. assess_risk '''' ''*9/*9'' ''aspirin'' = Inr v
      \<and> RISK_TABLE (py_upper '''', phenotype v, py_upper ''aspirin'') = None
      \<and> risk_label v = ''Unknown'' \<and> severity v = ''unknown''
      \<and> confidence_score v = 50 / 100
      \<and> action v = ''Consult clinical pharmacogenomics specialist''
      \<and> dosing_adjustment v = ''No guideline available for this combination''
      \<and> monitoring v = ''Standard monitoring recommended''"
proof -
  have miss: "RISK_TABLE (py_upper '''', p, d) = None" for p d
    by (simp add: RISK_TABLE_def dict_of_def RISK_TABLE_items_def py_upper_def)
  show ?thesis
    using assess_risk_total_default [of "''''" "''*9/*9''" "''aspirin''"] miss by auto
qed

text \<open>
  Claim C1 as stated fails in the advisory texts: for the empty gene, diplotype and drug
  there is no rule, and the verdict returned is not the one with the texts
  \<open>consult a clinical pharmacogenomics specialist\<close>,
  \<open>no guideline available for this combination\<close> and
  \<open>standard monitoring recommended\<close>.
\<close>

theorem assess_risk_default_text_counterexample:
  "RISK_TABLE (py_upper '''', ''Unknown'', py_upper '''') = None
   \<and> assess_risk '''' '''' '''' \<noteq>
       Inr \<lparr>risk_label = ''Unknown'', severity = ''unknown'', confidence_score = 50 / 100,
            action = ''consult a clinical pharmacogenomics specialist'',
            dosing_adjustment = ''no guideline available for this combination'',
            monitoring = ''standard monitoring recommended'',
            phenotype = ''Unknown'', rv_gene = '''', diplotype = '''', drug = ''''\<rparr>
   \<and> assess_risk '''' '''' '''' =
       Inr \<lparr>risk_label = ''Unknown'', severity = ''unknown'', confidence_score = 50 / 100,
            action = ''Consult clinical pharmacogenomics specialist'',
            dosing_adjustment = ''No guideline available for this combination'',
            monitoring = ''Standard monitoring recommended'',
            phenotype = ''Unknown'', rv_gene = '''', diplotype = '''', drug = ''''\<rparr>"
  by (simp add: assess_risk_def get_phenotype_def PHENOTYPE_MAP_def PHENOTYPE_MAP_items_def
      RISK_TABLE_def RISK_TABLE_items_def dict_of_def py_upper_def)

text \<open>
  Claim C10: \<open>assess_risk("CYP2D6", "*4/*4", "CODEINE")\<close> resolves the diplotype to
  the phenotype PM and returns the rule for (CYP2D6, PM, CODEINE) as the table has it:
  label Toxic, severity critical, confidence 0.92.
\<close>

theorem assess_risk_CYP2D6_PM_CODEINE:
  "get_phenotype ''CYP2D6'' ''*4/*4'' = Inr ''PM''
   \<and> RISK_TABLE (''CYP2D6'', ''PM'', ''CODEINE'') =
       Some \<lparr>risk_label = ''Toxic'', severity = ''critical'', confidence_score = 92 / 100,
             action = ''Avoid Codeine'',
             dosing_adjustment = ''N/A '' @ em_dash @ '' contraindicated'',
             monitoring = ''Switch to non-opioid analgesic (e.g., acetaminophen, NSAIDs)''\<rparr>
   \<and> assess_risk ''CYP2D6'' ''*4/*4'' ''CODEINE'' =
       Inr \<lparr>risk_label = ''Toxic'', severity = ''critical'', confidence_score = 92 / 100,
            action = ''Avoid Codeine'',
            dosing_adjustment = ''N/A '' @ em_dash @ '' contraindicated'',
            monitoring = ''Switch to non-opioid analgesic (e.g., acetaminophen, NSAIDs)'',
            phenotype = ''PM'', rv_gene = ''CYP2D6'', diplotype = ''*4/*4'',
            drug = ''CODEINE''\<rparr>"
proof -
  have ph: "get_phenotype ''CYP2D6'' ''*4/*4'' = Inr ''PM''"
    by (simp add: get_phenotype_def PHENOTYPE_MAP_def PHENOTYPE_MAP_items_def dict_of_def)
  have up: "py_upper ''CYP2D6'' = ''CYP2D6''" "py_upper ''CODEINE'' = ''CODEINE''"
    by (simp_all add: py_upper_def char_upper_def)
  have rt: "RISK_TABLE (''CYP2D6'', ''PM'', ''CODEINE'') =
       Some \<lparr>risk_label = ''Toxic'', severity = ''critical'', confidence_score = 92 / 100,
             action = ''Avoid Codeine'',
             dosing_adjustment = ''N/A '' @ em_dash @ '' contraindicated'',
             monitoring = ''Switch to non-opioid analgesic (e.g., acetaminophen, NSAIDs)''\<rparr>"
    by (simp add: RISK_TABLE_def dict_of_def RISK_TABLE_items_def)
  show ?thesis
    by (simp add: assess_risk_def ph up rt)
qed

section \<open>Properties of the parser\<close>

subsection \<open>Evaluating splits and numbers\<close>

text \<open>
  The equations of \<open>py_split\<close> and \<open>re_split_ws\<close> mention the recursive call twice;
  these forms mention it once and keep the evaluation of a concrete line linear.
\<close>

lemma re_split_ws_not_Nil: "re_split_ws s \<noteq> []"
  by (induction s rule: re_split_ws.induct) auto

lemma py_split_Cons_case:
  "py_split sep (c # cs) =
     (if c = sep then [] # py_split sep cs
      else (case py_split sep cs of w # ws \<Rightarrow> (c # w) # ws | [] \<Rightarrow> [[c]]))"
  using py_split_not_Nil [of sep cs] by (cases "py_split sep cs") simp_all

lemma re_split_ws_Cons_case:
  "re_split_ws (c # cs) =
     (if py_isspace c then [] # re_split_ws (dropWhile py_isspace cs)
      else (case re_split_ws cs of w # ws \<Rightarrow> (c # w) # ws | [] \<Rightarrow> [[c]]))"
  using re_split_ws_not_Nil [of cs] by (cases "re_split_ws cs") simp_all

lemmas split_eval =
  py_split.simps(1) py_split_Cons_case re_split_ws.simps(1) re_split_ws_Cons_case


lemma str_nat_numeral:
  "str_nat (numeral k) = (if numeral k < (10::nat) then [digit_char (numeral k)]
     else str_nat (numeral k div 10) @ [digit_char (numeral k mod 10)])"
  by (simp add: str_nat.simps[of "numeral k"])

subsection \<open>The marker table\<close>

text \<open>
  Claim C8: the display of \<open>RSID_LOOKUP\<close> has two items with the key \<open>rs1800584\<close>,
  TPMT *3B and then TPMT *3C; the later one wins: \<open>lookup_by_rsid("rs1800584")\<close> is
  TPMT *3C, and no marker id at all is mapped to the entry TPMT *3B.
\<close>

theorem rs1800584_last_wins:
  "map snd (filter (\<lambda>(k, v). k = ''rs1800584'') RSID_LOOKUP_items) =
     [\<lparr>entry_gene = ''TPMT'', entry_star = ''*3B''\<rparr>,
      \<lparr>entry_gene = ''TPMT'', entry_star = ''*3C''\<rparr>]
   \<and> lookup_by_rsid ''rs1800584'' = Some \<lparr>entry_gene = ''TPMT'', entry_star = ''*3C''\<rparr>
   \<and> (\<forall>r. lookup_by_rsid r \<noteq> Some \<lparr>entry_gene = ''TPMT'', entry_star = ''*3B''\<rparr>)"
proof -
  have items: "map snd (filter (\<lambda>(k, v). k = ''rs1800584'') RSID_LOOKUP_items) =
     [\<lparr>entry_gene = ''TPMT'', entry_star = ''*3B''\<rparr>,
      \<lparr>entry_gene = ''TPMT'', entry_star = ''*3C''\<rparr>]"
    by (simp add: RSID_LOOKUP_items_def)
  have hit: "lookup_by_rsid ''rs1800584'' =
      Some \<lparr>entry_gene = ''TPMT'', entry_star = ''*3C''\<rparr>"
    by (simp add: lookup_by_rsid_def RSID_LOOKUP_def RSID_LOOKUP_items_def dict_of_def)
  have never: "lookup_by_rsid r \<noteq> Some \<lparr>entry_gene = ''TPMT'', entry_star = ''*3B''\<rparr>"
    for r
    by (simp add: lookup_by_rsid_def RSID_LOOKUP_def RSID_LOOKUP_items_def dict_of_def)
  show ?thesis using items hit never by blast
qed

subsection \<open>\<open>infer_diplotype\<close>\<close>

lemma first_occurrences_filter:
  "first_occurrences (filter Q xs) = filter Q (first_occurrences xs)"
proof (induction xs)
  case Nil
  then show ?case by simp
next
  case (Cons x xs)
  have "\<not> Q x \<Longrightarrow> filter Q (filter (\<lambda>y. y \<noteq> x) ys) = filter Q ys" for ys
    by (induction ys) auto
  with Cons show ?case
    by (auto simp: filter_filter conj_commute)
qed

text \<open>The loop invariant: what has been collected, then the new labels still to come.\<close>

lemma collect_stars_eq:
  "collect_stars vs acc =
     acc @ first_occurrences (filter (\<lambda>s. truthy s \<and> s \<notin> set acc) (map star vs))"
proof (induction vs arbitrary: acc)
  case Nil
  then show ?case by simp
next
  case (Cons v vs)
  show ?case
  proof (cases "truthy (star v) \<and> star v \<notin> set acc")
    case True
    have "filter (\<lambda>s. truthy s \<and> s \<notin> set (acc @ [star v])) (map star vs) =
          filter (\<lambda>y. y \<noteq> star v) (filter (\<lambda>s. truthy s \<and> s \<notin> set acc) (map star vs))"
      by (auto simp: filter_filter intro: filter_cong)
    with True show ?thesis
      by (simp add: Cons.IH first_occurrences_filter)
  next
    case False
    then show ?thesis by (auto simp: Cons.IH)
  qed
qed

lemma collect_stars_distinct_labels: "collect_stars vs [] = distinct_labels vs"
  by (simp add: collect_stars_eq distinct_labels_def)

lemma first_occurrences_length: "length (first_occurrences xs) \<le> length xs"
  by (induction xs) (auto intro: le_trans [OF length_filter_le] le_SucI)

lemma distinct_labels_length: "length (distinct_labels vs) \<le> length vs"
proof -
  have "length (distinct_labels vs) \<le> length (filter truthy (map star vs))"
    unfolding distinct_labels_def by (rule first_occurrences_length)
  also have "\<dots> \<le> length (map star vs)" by (rule length_filter_le)
  finally show ?thesis by simp
qed

text \<open>
  Claim C4: \<open>infer_diplotype\<close> looks only at the distinct non-empty star-allele labels
  in first-occurrence order and at the number of records. No label: no diplotype. One
  label X: X/*1 when the list has exactly one record, X/X otherwise, that is with two or
  more records, since there are at least as many records as labels. Two or more labels:
  X/Y from the first two, the rest ignored.
\<close>

theorem infer_diplotype_cases:
  "infer_diplotype vs =
     (case distinct_labels vs of
        [] \<Rightarrow> None
      | [x] \<Rightarrow> if length vs = 1 then Some (py_str x @ ''/*1'')
               else Some (py_str x @ ''/'' @ py_str x)
      | x # y # rest \<Rightarrow> Some (py_str x @ ''/'' @ py_str y))
   \<and> length (distinct_labels vs) \<le> length vs"
proof -
  have "length vs = 1 \<longleftrightarrow> \<not> 2 \<le> length vs" if "length (distinct_labels vs) = 1"
    using that distinct_labels_length [of vs] by auto
  then show ?thesis
    using distinct_labels_length [of vs]
    by (auto simp: infer_diplotype_def collect_stars_distinct_labels Let_def
        split: list.splits)
qed

theorem infer_diplotype_cases_witness:
  "infer_diplotype
     [\<lparr>rsid = PStr ''rs3892097'', gene = ''CYP2D6'', star = PStr ''*4'', chrom = ''22'',
       pos = 42524947, ref = ''C'', alt = ''T''\<rparr>] = Some ''*4/*1''
   \<and> infer_diplotype
     [\<lparr>rsid = PStr ''rs3892097'', gene = ''CYP2D6'', star = PStr ''*4'', chrom = ''22'',
       pos = 42524947, ref = ''C'', alt = ''T''\<rparr>,
      \<lparr>rsid = PStr ''rs1065852'', gene = ''CYP2D6'', star = PStr ''*4'', chrom = ''22'',
       pos = 42526694, ref = ''G'', alt = ''A''\<rparr>] = Some ''*4/*4''
   \<and> infer_diplotype
     [\<lparr>rsid = PStr ''a'', gene = ''CYP2D6'', star = PStr ''*1'', chrom = ''22'',
       pos = 1, ref = ''C'', alt = ''T''\<rparr>,
      \<lparr>rsid = PStr ''b'', gene = ''CYP2D6'', star = PStr ''*4'', chrom = ''22'',
       pos = 2, ref = ''G'', alt = ''A''\<rparr>,
      \<lparr>rsid = PStr ''c'', gene = ''CYP2D6'', star = PStr ''*6'', chrom = ''22'',
       pos = 3, ref = ''G'', alt = ''A''\<rparr>] = Some ''*1/*4''
   \<and> infer_diplotype
     [\<lparr>rsid = PStr ''pos_22_42523000'', gene = ''CYP2D6'', star = PStr [], chrom = ''22'',
       pos = 42523000, ref = ''A'', alt = ''G''\<rparr>] = None"
proof -
  let ?v1 = "\<lparr>rsid = PStr ''rs3892097'', gene = ''CYP2D6'', star = PStr ''*4'', chrom = ''22'',
       pos = 42524947, ref = ''C'', alt = ''T''\<rparr>"
  let ?v2 = "\<lparr>rsid = PStr ''rs1065852'', gene = ''CYP2D6'', star = PStr ''*4'', chrom = ''22'',
       pos = 42526694, ref = ''G'', alt = ''A''\<rparr>"
  let ?a = "\<lparr>rsid = PStr ''a'', gene = ''CYP2D6'', star = PStr ''*1'', chrom = ''22'',
       pos = 1, ref = ''C'', alt = ''T''\<rparr>"
  let ?b = "\<lparr>rsid = PStr ''b'', gene = ''CYP2D6'', star = PStr ''*4'', chrom = ''22'',
       pos = 2, ref = ''G'', alt = ''A''\<rparr>"
  let ?c = "\<lparr>rsid = PStr ''c'', gene = ''CYP2D6'', star = PStr ''*6'', chrom = ''22'',
       pos = 3, ref = ''G'', alt = ''A''\<rparr>"
  let ?e = "\<lparr>rsid = PStr ''pos_22_42523000'', gene = ''CYP2D6'', star = PStr [], chrom = ''22'',
       pos = 42523000, ref = ''A'', alt = ''G''\<rparr>"
  have "distinct_labels [?v1] = [PStr ''*4'']" "distinct_labels [?v1, ?v2] = [PStr ''*4'']"
    "distinct_labels [?a, ?b, ?c] = [PStr ''*1'', PStr ''*4'', PStr ''*6'']"
    "distinct_labels [?e] = []"
    by (simp_all add: distinct_labels_def)
  then show ?thesis
    using infer_diplotype_cases [of "[?v1]"] infer_diplotype_cases [of "[?v1, ?v2]"]
      infer_diplotype_cases [of "[?a, ?b, ?c]"] infer_diplotype_cases [of "[?e]"]
    by simp
qed

subsection \<open>One line of the document\<close>

lemma py_strip_Nil_iff: "py_strip l = [] \<longleftrightarrow> blank l"
proof -
  have "dropWhile py_isspace (rev (dropWhile py_isspace l)) = [] \<longleftrightarrow> dropWhile py_isspace l = []"
  proof
    assume a: "dropWhile py_isspace (rev (dropWhile py_isspace l)) = []"
    show "dropWhile py_isspace l = []"
    proof (rule ccontr)
      assume n: "dropWhile py_isspace l \<noteq> []"
      then have "\<not> py_isspace (hd (dropWhile py_isspace l))" by (rule hd_dropWhile)
      moreover have "hd (dropWhile py_isspace l) \<in> set (rev (dropWhile py_isspace l))"
        using n by simp
      moreover from a have "\<forall>x\<in>set (rev (dropWhile py_isspace l)). py_isspace x"
        by (simp only: dropWhile_eq_Nil_conv)
      ultimately show False by blast
    qed
  next
    assume "dropWhile py_isspace l = []"
    then show "dropWhile py_isspace (rev (dropWhile py_isspace l)) = []"
      by (simp only: rev.simps dropWhile.simps)
  qed
  then show ?thesis
    unfolding py_strip_def blank_def list_all_iff rev_is_Nil_conv
    by (simp only: dropWhile_eq_Nil_conv)
qed

lemma startswith_Cons: "startswith l (c # p) \<longleftrightarrow> (\<exists>r. l = c # r \<and> startswith r p)"
  by (cases l) (auto simp: startswith_def)

lemma startswith_Nil: "startswith l []"
  by (simp add: startswith_def)

lemma fileformat_header: "startswith l ''##fileformat='' \<Longrightarrow> startswith l ''#''"
  by (auto simp: startswith_Cons startswith_Nil)

lemma fileformat_has_eq: "startswith l ''##fileformat='' \<Longrightarrow> CHR ''='' \<in> set l"
  by (auto simp: startswith_Cons)

lemma counted_line_iff:
  "counted_line l \<longleftrightarrow> \<not> startswith l ''##fileformat='' \<and> \<not> startswith l ''#'' \<and> py_strip l \<noteq> []"
  by (auto simp: counted_line_def py_strip_Nil_iff)

lemma info_item_total: "\<exists>m. info_item item result = Inr m"
  by (simp add: info_item_def py_split1_def)

lemma info_items_total: "\<exists>m. info_items items result = Inr m"
proof (induction items arbitrary: result)
  case Nil
  then show ?case by simp
next
  case (Cons item items)
  obtain m where "info_item item result = Inr m" using info_item_total by blast
  then show ?case using Cons [of m] by simp
qed

lemma parse_info_field_total: "\<exists>m. parse_info_field info = Inr m"
  using info_items_total by (simp add: parse_info_field_def)

lemma materialize_total_lines: "st_total_lines (materialize res c p rf al st) = st_total_lines st"
  by (simp add: materialize_def split: option.splits)

lemma materialize_variants:
  "st_variants (materialize res c p rf al st) = st_variants st
   \<or> (\<exists>g. fst res = Some g \<and> g \<in> TARGET_GENES \<and>
        st_variants (materialize res c p rf al st) = st_variants st @
          [\<lparr>rsid = snd (snd res), gene = g, star = fst (snd res), chrom = c, pos = p,
            ref = rf, alt = al\<rparr>])"
  by (simp add: materialize_def split: option.splits)

lemma process_record_total_lines:
  "process_record n parts st = Inr st' \<Longrightarrow> st_total_lines st' = st_total_lines st"
  by (auto simp: process_record_def Let_def materialize_total_lines
      split: if_splits option.splits sum.splits)

lemma process_record_variants:
  assumes "process_record n parts st = Inr st'"
  shows "st_variants st' = st_variants st
     \<or> (\<exists>v. gene v \<in> TARGET_GENES \<and> st_variants st' = st_variants st @ [v])"
proof -
  define grown where "grown s \<longleftrightarrow> st_variants s = st_variants st
     \<or> (\<exists>v. gene v \<in> TARGET_GENES \<and> st_variants s = st_variants st @ [v])"
    for s :: parse_state
  have m: "grown (materialize res c p rf al st)" for res c p rf al
    using materialize_variants [of res c p rf al st] by (auto simp: grown_def)
  have e: "grown (st\<lparr>st_parsing_errors := x\<rparr>)" for x
    by (simp add: grown_def)
  from assms have "grown st'"
    by (auto simp: process_record_def Let_def m e split: if_splits option.splits sum.splits)
  then show ?thesis by (simp add: grown_def)
qed

lemma process_line_cases:
  "startswith l ''##fileformat='' \<Longrightarrow>
     process_line n l st = Inr (st\<lparr>st_vcf_version := py_strip (tl (dropWhile (\<lambda>c. c \<noteq> CHR ''='') l))\<rparr>)"
  "\<not> startswith l ''##fileformat='' \<Longrightarrow> startswith l ''#'' \<Longrightarrow> process_line n l st = Inr st"
  "\<not> startswith l ''#'' \<Longrightarrow> py_strip l = [] \<Longrightarrow> process_line n l st = Inr st"
  "\<not> startswith l ''#'' \<Longrightarrow> py_strip l \<noteq> [] \<Longrightarrow>
     process_line n l st =
       process_record n (split_columns (py_strip l)) (st\<lparr>st_total_lines := st_total_lines st + 1\<rparr>)"
  using fileformat_header [of l] fileformat_has_eq [of l]
  by (auto simp: process_line_def py_index_def py_split1_def Let_def)

lemma process_line_total_lines:
  assumes "process_line n l st = Inr st'"
  shows "st_total_lines st' = st_total_lines st + (if counted_line l then 1 else 0)"
proof -
  consider (v) "startswith l ''##fileformat=''"
    | (h) "\<not> startswith l ''##fileformat=''" "startswith l ''#''"
    | (b) "\<not> startswith l ''#''" "py_strip l = []"
    | (d) "\<not> startswith l ''#''" "py_strip l \<noteq> []"
    by blast
  then show ?thesis
  proof cases
    case v
    then show ?thesis using assms by (auto simp: process_line_cases(1) counted_line_iff)
  next
    case h
    then show ?thesis using assms by (auto simp: process_line_cases(2) counted_line_iff)
  next
    case b
    then show ?thesis using assms by (auto simp: process_line_cases(3) counted_line_iff)
  next
    case d
    then have "\<not> startswith l ''##fileformat=''" using fileformat_header by blast
    with d assms show ?thesis
      by (auto simp: process_line_cases(4) counted_line_iff dest: process_record_total_lines)
  qed
qed

lemma parse_lines_total_lines:
  "parse_lines n ls st = Inr st' \<Longrightarrow>
     st_total_lines st' = st_total_lines st + length (filter counted_line ls)"
proof (induction ls arbitrary: n st)
  case Nil
  then show ?case by simp
next
  case (Cons l ls)
  from Cons.prems obtain st1 where s: "process_line n l st = Inr st1"
    and r: "parse_lines (Suc n) ls st1 = Inr st'"
    by (auto split: sum.splits)
  show ?case
    using Cons.IH [OF r] process_line_total_lines [OF s] by simp
qed

lemma process_line_variants:
  assumes "process_line n l st = Inr st'"
  shows "st_variants st' = st_variants st
     \<or> (\<exists>v. gene v \<in> TARGET_GENES \<and> st_variants st' = st_variants st @ [v])"
proof -
  consider (v) "startswith l ''##fileformat=''"
    | (h) "\<not> startswith l ''##fileformat=''" "startswith l ''#''"
    | (b) "\<not> startswith l ''#''" "py_strip l = []"
    | (d) "\<not> startswith l ''#''" "py_strip l \<noteq> []"
    by blast
  then show ?thesis
  proof cases
    case v
    then show ?thesis using assms by (auto simp: process_line_cases(1))
  next
    case h
    then show ?thesis using assms by (auto simp: process_line_cases(2))
  next
    case b
    then show ?thesis using assms by (auto simp: process_line_cases(3))
  next
    case d
    with assms have "process_record n (split_columns (py_strip l))
        (st\<lparr>st_total_lines := st_total_lines st + 1\<rparr>) = Inr st'"
      by (simp add: process_line_cases(4))
    from process_record_variants [OF this] show ?thesis by simp
  qed
qed

lemma parse_lines_closure:
  "parse_lines n ls st = Inr st' \<Longrightarrow> \<forall>v\<in>set (st_variants st). gene v \<in> TARGET_GENES \<Longrightarrow>
     \<forall>v\<in>set (st_variants st'). gene v \<in> TARGET_GENES"
proof (induction ls arbitrary: n st)
  case Nil
  then show ?case by simp
next
  case (Cons l ls)
  from Cons.prems obtain st1 where s: "process_line n l st = Inr st1"
    and r: "parse_lines (Suc n) ls st1 = Inr st'"
    by (auto split: sum.splits)
  have "\<forall>v\<in>set (st_variants st1). gene v \<in> TARGET_GENES"
    using process_line_variants [OF s] Cons.prems(2) by auto
  from Cons.IH [OF r this] show ?case .
qed



subsection \<open>Evaluating concrete lines\<close>

lemmas line_eval = py_strip_def py_isspace_def startswith_def split_columns_def split_eval
  process_line_def process_record_def Let_def

lemma py_int_eval: "py_int ''42523000'' = Some 42523000" "py_int ''100'' = Some 100" "py_int ''5'' = Some 5"
  by (simp_all add: py_int_def int_isspace_def is_digit_def digits_value_def digit_val_def)

lemma str_int_eval: "str_int 42523000 = ''42523000''"
  by (simp add: str_int_def str_nat_numeral digit_char_def)

lemma region_22: "lookup_by_position ''22'' 42523000 = Some ''CYP2D6''"
  by (simp add: lookup_by_position_def POSITION_GENE_MAP_def)

lemma line_region:
  "process_line n ''22 42523000 . A G'' st =
     Inr (st\<lparr>st_total_lines := st_total_lines st + 1,
             st_genes_found := insert ''CYP2D6'' (st_genes_found st),
             st_variants := st_variants st @
               [\<lparr>rsid = PStr ''pos_22_42523000'', gene = ''CYP2D6'', star = PStr [],
                 chrom = ''22'', pos = 42523000, ref = ''A'', alt = ''G''\<rparr>]\<rparr>)"
  by (simp add: line_eval py_int_eval parse_info_field_def resolve_gene_def strategy1_def
      strategy2_def strategy3_def region_22 str_int_eval materialize_def TARGET_GENES_def
      del: py_split.simps(2) re_split_ws.simps(2))

lemma line_short:
  "process_line n ''1 100 rs1'' st =
     Inr (st\<lparr>st_total_lines := st_total_lines st + 1,
             st_parsing_errors := st_parsing_errors st @ [insufficient_columns n 3]\<rparr>)"
  by (simp add: line_eval numeral_3_eq_3 del: py_split.simps(2) re_split_ws.simps(2))

lemma line_other:
  "process_line n ''1 5 rs1 A G . . GENE=BRCA1'' st =
     Inr (st\<lparr>st_total_lines := st_total_lines st + 1\<rparr>)"
  by (simp add: line_eval py_int_eval parse_info_field_def info_item_def py_split1_def
      resolve_gene_def strategy1_def strategy2_def strategy3_def py_upper_def char_upper_def
      materialize_def TARGET_GENES_def
      del: py_split.simps(2) re_split_ws.simps(2))

lemma doc_lines_eval:
  "document_lines '' #x'' = [''#x'']"
  "document_lines ''1 100 rs1\<newline>22 42523000 . A G'' = [''1 100 rs1'', ''22 42523000 . A G'']"
  "document_lines ''\<newline>1 100 rs1'' = [''1 100 rs1'']"
  "document_lines ''22 42523000 . A G\<newline>1 5 rs1 A G . . GENE=BRCA1'' =
     [''22 42523000 . A G'', ''1 5 rs1 A G . . GENE=BRCA1'']"
  by (simp_all add: document_lines_def py_strip_def py_isspace_def split_eval
      del: py_split.simps(2) re_split_ws.simps(2))

subsection \<open>The count of processed lines\<close>

text \<open>
  Claim C5, as the code has it: when parsing returns an outcome, its
  \<open>total_lines_processed\<close> is the number of lines, of the document with the whitespace
  at its two ends removed, that are not blank and begin neither with the comment marker
  nor with the format-version marker. Lines that end in a parse error or give no variant
  are counted like the others.
\<close>

theorem total_lines_processed_count:
  assumes "parse_vcf_content content = Inr out"
  shows "total_lines_processed out =
           length (filter counted_line (py_split CHR 0x0A (py_strip content)))"
proof -
  from assms obtain st where st: "parse_lines 1 (document_lines content) initial_state = Inr st"
    and out: "out = outcome_of st"
    by (auto simp: parse_vcf_content_def split: sum.splits)
  from parse_lines_total_lines [OF st] show ?thesis
    by (simp add: out outcome_of_def initial_state_def document_lines_def)
qed

theorem total_lines_processed_count_witness:
  "\<exists>out. parse_vcf_content (''1 100 rs1\<newline>22 42523000 . A G'') = Inr out
     \<and> total_lines_processed out = 2
     \<and> length (filter counted_line (py_split CHR 0x0A
          (py_strip (''1 100 rs1\<newline>22 42523000 . A G'')))) = 2"
proof -
  let ?D = "''1 100 rs1\<newline>22 42523000 . A G''"
  obtain out where out: "parse_vcf_content ?D = Inr out"
    by (simp add: parse_vcf_content_def doc_lines_eval(2) line_short line_region)
  have "total_lines_processed out = 2"
    using out
    by (auto simp: parse_vcf_content_def doc_lines_eval(2) line_short line_region
        outcome_of_def initial_state_def)
  with out total_lines_processed_count [OF out] show ?thesis by auto
qed

text \<open>
  Claim C5 as stated, counting the lines of the document itself, fails: the document
  \<open>" #x"\<close> has one line, which is not blank and does not begin with \<open>#\<close>, yet
  nothing is counted, because the document is stripped before it is split into lines and
  the line then begins with \<open>#\<close>.
\<close>

theorem total_lines_processed_raw_counterexample:
  "parse_vcf_content '' #x'' =
     Inr \<lparr>variants = [], genes_found = [], total_variants = 0, total_lines_processed = 0,
          vcf_version = ''Unknown'', parsing_errors = []\<rparr>
   \<and> filter counted_line (py_split CHR 0x0A '' #x'') = ['' #x'']"
proof -
  have "process_line n ''#x'' st = Inr st" for n st
    by (simp add: process_line_def startswith_def)
  then have "parse_vcf_content '' #x'' = Inr (outcome_of initial_state)"
    by (simp add: parse_vcf_content_def doc_lines_eval(1))
  moreover have "filter counted_line (py_split CHR 0x0A '' #x'') = ['' #x'']"
    by (simp add: counted_line_def blank_def startswith_def py_isspace_def)
  ultimately show ?thesis
    by (simp add: outcome_of_def initial_state_def)
qed

subsection \<open>Closure under the target genes\<close>

text \<open>
  Claim C6: when parsing returns an outcome, the gene of every variant in it is one of
  the six target genes; a record that resolves to no gene, or to a gene outside that
  set, leaves the parse state as it is and so contributes no variant.
\<close>

theorem variants_in_TARGET_GENES:
  assumes "parse_vcf_content content = Inr out"
  shows "(\<forall>v\<in>set (variants out). gene v \<in> TARGET_GENES)
     \<and> (fst res = None \<or> (\<exists>g. fst res = Some g \<and> g \<notin> TARGET_GENES)
          \<longrightarrow> materialize res c p rf al st = st)"
proof -
  from assms obtain s where s: "parse_lines 1 (document_lines content) initial_state = Inr s"
    and out: "out = outcome_of s"
    by (auto simp: parse_vcf_content_def split: sum.splits)
  have "\<forall>v\<in>set (st_variants s). gene v \<in> TARGET_GENES"
    by (rule parse_lines_closure [OF s]) (simp add: initial_state_def)
  then show ?thesis
    by (auto simp: out outcome_of_def materialize_def)
qed

theorem variants_in_TARGET_GENES_witness:
  "\<exists>out. parse_vcf_content ''22 42523000 . A G\<newline>1 5 rs1 A G . . GENE=BRCA1'' = Inr out
     \<and> map gene (variants out) = [''CYP2D6'']
     \<and> (\<forall>v\<in>set (variants out). gene v \<in> TARGET_GENES)
     \<and> ''BRCA1'' \<notin> TARGET_GENES
     \<and> materialize (Some ''BRCA1'', PStr [], PStr ''rs1'') ''1'' 5 ''A'' ''G'' initial_state
         = initial_state"
proof -
  let ?D = "''22 42523000 . A G\<newline>1 5 rs1 A G . . GENE=BRCA1''"
  have ev: "parse_lines 1 (document_lines ?D) initial_state =
      Inr (initial_state\<lparr>st_total_lines := 2, st_genes_found := {''CYP2D6''},
             st_variants := [\<lparr>rsid = PStr ''pos_22_42523000'', gene = ''CYP2D6'',
                star = PStr [], chrom = ''22'', pos = 42523000, ref = ''A'', alt = ''G''\<rparr>]\<rparr>)"
    by (simp add: doc_lines_eval(4) line_region line_other initial_state_def)
  then obtain out where out: "parse_vcf_content ?D = Inr out"
    and vs: "map gene (variants out) = [''CYP2D6'']"
    by (simp add: parse_vcf_content_def outcome_of_def)
  have nt: "''BRCA1'' \<notin> TARGET_GENES" by (simp add: TARGET_GENES_def)
  show ?thesis
    using variants_in_TARGET_GENES
      [OF out, of "(Some ''BRCA1'', PStr [], PStr ''rs1'')" "''1''" 5 "''A''" "''G''" initial_state]
      out vs nt
    by auto
qed

subsection \<open>A line with too few columns\<close>




subsection \<open>The explicit gene tag\<close>

text \<open>
  When the INFO dict has the key GENE with a string value, strategy 1 gives the gene and
  the two later strategies leave it alone, whatever the marker id and the position are.
\<close>

lemma explicit_gene_wins:
  assumes "info_dict ''GENE'' = Some (PStr g)"
  shows "resolve_gene info_dict c p rs =
     Inr (Some (py_upper g),
          (case info_dict ''STAR'' of Some v \<Rightarrow> v | None \<Rightarrow> PStr []),
          (case info_dict ''RS'' of Some v \<Rightarrow> v | None \<Rightarrow> PStr rs))"
  using assms by (simp add: resolve_gene_def strategy1_def strategy2_def strategy3_def)

text \<open>The parser raises on no line but one whose INFO dict has GENE as a flag.\<close>

lemma process_line_raises:
  assumes "process_line n l st = Inl e"
  shows "e = AttributeError \<and> 7 < length (split_columns (py_strip l))
     \<and> (\<exists>m. parse_info_field (split_columns (py_strip l) ! 7) = Inr m \<and> m ''GENE'' = Some PTrue)"
proof -
  have nh: "\<not> startswith l ''#''" "py_strip l \<noteq> []"
    using assms process_line_cases [of l n st] by (auto simp del: One_nat_def)
  let ?parts = "split_columns (py_strip l)"
  let ?st = "st\<lparr>st_total_lines := st_total_lines st + 1\<rparr>"
  have rec: "process_record n ?parts ?st = Inl e"
    using assms nh by (simp add: process_line_cases(4))
  have empty: "parse_info_field [] = Inr Map.empty"
    by (simp add: parse_info_field_def)
  have res: "resolve_gene m c p rs = Inl e' \<Longrightarrow> e' = AttributeError \<and> m ''GENE'' = Some PTrue"
    for m c p rs e'
    by (auto simp: resolve_gene_def strategy1_def split: option.splits pyval.splits sum.splits)
  have res_empty: "resolve_gene Map.empty c p rs \<noteq> Inl e'" for c p rs e'
    using res [of Map.empty c p rs e'] by auto
  from rec show ?thesis
    using parse_info_field_total [of "?parts ! 7"] res res_empty
    by (auto simp: process_record_def Let_def empty split: if_splits option.splits sum.splits)
qed

text \<open>
  Claim C2 at a record whose INFO field is the flag \<open>GENE\<close>: its attributes contain
  the key GENE, its marker id is in the marker table and its position in the region
  table, and \<open>parse_vcf_content\<close> raises AttributeError instead of resolving it.
\<close>

theorem gene_flag_raises:
  "parse_info_field ''GENE'' = Inr [''GENE'' \<mapsto> PTrue]
   \<and> lookup_by_rsid ''rs3892097'' = Some \<lparr>entry_gene = ''CYP2D6'', entry_star = ''*4''\<rparr>
   \<and> lookup_by_position ''22'' 42523000 = Some ''CYP2D6''
   \<and> parse_vcf_content ''22 42523000 rs3892097 C T . . GENE'' = Inl AttributeError"
proof -
  have info: "parse_info_field ''GENE'' = Inr [''GENE'' \<mapsto> PTrue]"
    by (simp add: parse_info_field_def info_item_def py_strip_def py_isspace_def)
  have rs: "lookup_by_rsid ''rs3892097'' = Some \<lparr>entry_gene = ''CYP2D6'', entry_star = ''*4''\<rparr>"
    by (simp add: lookup_by_rsid_def RSID_LOOKUP_def RSID_LOOKUP_items_def dict_of_def)
  have lines: "document_lines ''22 42523000 rs3892097 C T . . GENE'' =
      [''22 42523000 rs3892097 C T . . GENE'']"
    by (simp add: document_lines_def py_strip_def py_isspace_def split_eval
        del: py_split.simps(2))
  have strip: "py_strip ''22 42523000 rs3892097 C T . . GENE'' =
      ''22 42523000 rs3892097 C T . . GENE''"
    by (simp add: py_strip_def py_isspace_def)
  have cols: "split_columns ''22 42523000 rs3892097 C T . . GENE'' =
      [''22'', ''42523000'', ''rs3892097'', ''C'', ''T'', ''.'', ''.'', ''GENE'']"
    by (simp add: py_isspace_def split_columns_def split_eval
        del: py_split.simps(2) re_split_ws.simps(2))
  have "process_line n ''22 42523000 rs3892097 C T . . GENE'' st = Inl AttributeError" for n st
    by (simp add: process_line_def startswith_def Let_def strip cols process_record_def
        py_int_eval info resolve_gene_def strategy1_def)
  then have "parse_vcf_content ''22 42523000 rs3892097 C T . . GENE'' = Inl AttributeError"
    by (simp add: parse_vcf_content_def lines)
  with info rs region_22 show ?thesis by simp
qed

subsection \<open>The lines of a document and of the stripped document\<close>













subsection \<open>The region table\<close>





subsection \<open>The region fallback\<close>








end
